theory Spec2Isabelle
  imports Complex_Main
begin

section \<open>Python values\<close>

text \<open>
  An exception object: its class name and the text \<open>str(e)\<close> gives. The type stands for the
  instances of Python's \<open>Exception\<close>, which is what every \<open>except Exception\<close> clause of the
  program catches. Interpreter signals that derive from \<open>BaseException\<close> only (keyboard
  interrupt, interpreter exit, task cancellation) are not errors of a collaborator and are not
  modelled.
\<close>

datatype exn = PyException (exn_class: string) (exn_str: string)

text \<open>A Python float as \<open>json.loads\<close> can produce it: a finite value, an infinity, or NaN.\<close>

datatype pyfloat = Finite rat | Infinity bool | NaN

text \<open>
  The values \<open>json.loads\<close> and \<open>request.get_json\<close> return. A dict is the list of its items;
  a Python dict holds every key once.
\<close>

datatype json =
    JNull
  | JBool bool
  | JInt int
  | JFloat pyfloat
  | JString string
  | JArray "json list"
  | JObject "(string \<times> json) list"

text \<open>Python truthiness, as \<open>if x:\<close> and \<open>not x\<close> test it.\<close>

fun truthy :: "json \<Rightarrow> bool" where
  "truthy JNull = False"
| "truthy (JBool b) = b"
| "truthy (JInt i) = (i \<noteq> 0)"
| "truthy (JFloat f) = (f \<noteq> Finite 0)"
| "truthy (JString s) = (s \<noteq> [])"
| "truthy (JArray xs) = (xs \<noteq> [])"
| "truthy (JObject kvs) = (kvs \<noteq> [])"

text \<open>An \<open>Optional[str]\<close> is \<open>None\<close> or a string; it is truthy when it is a non-empty string.\<close>

definition truthy_str :: "string option \<Rightarrow> bool" where
  "truthy_str r = (case r of None \<Rightarrow> False | Some s \<Rightarrow> s \<noteq> [])"

text \<open>The result of the search client: \<open>None\<close> or a list of snippets.\<close>

definition truthy_list :: "string list option \<Rightarrow> bool" where
  "truthy_list r = (case r of None \<Rightarrow> False | Some xs \<Rightarrow> xs \<noteq> [])"

text \<open>How an f-string renders an \<open>Optional[str]\<close>.\<close>

definition format_str :: "string option \<Rightarrow> string" where
  "format_str r = (case r of None \<Rightarrow> ''None'' | Some s \<Rightarrow> s)"

text \<open>\<open>sep.join(xs)\<close>.\<close>

fun join :: "string \<Rightarrow> string list \<Rightarrow> string" where
  "join sep [] = []"
| "join sep [x] = x"
| "join sep (x # y # ys) = x @ sep @ join sep (y # ys)"

section \<open>Effects: calls to collaborators, logging, exceptions\<close>

text \<open>
  What the program does to the outside, in the order it does it: each call to a collaborator
  with its arguments, and each record written to the logger or printed.
\<close>

datatype event =
    CacheGet string
  | CacheSet string "string option"
  | GetKnowledgeBase
  | FindAnswer string
  | SearchUrlSources string
  | GetCompletion string string
  | WebSearch string
  | LoggerError string
  | GetJson
  | Print string

text \<open>
  A computation takes the events so far and gives its outcome, a raised exception (\<open>Inl\<close>) or a
  returned value (\<open>Inr\<close>), with the events extended.
\<close>

type_synonym 'a io = "event list \<Rightarrow> (exn + 'a) \<times> event list"

definition io_return :: "'a \<Rightarrow> 'a io" where
  "io_return x t = (Inr x, t)"

definition io_bind :: "'a io \<Rightarrow> ('a \<Rightarrow> 'b io) \<Rightarrow> 'b io" where
  "io_bind m f t = (case m t of (Inl e, t') \<Rightarrow> (Inl e, t') | (Inr x, t') \<Rightarrow> f x t')"

text \<open>A pure step that may raise, such as \<open>json.loads\<close>.\<close>

definition io_lift :: "exn + 'a \<Rightarrow> 'a io" where
  "io_lift r t = (r, t)"

text \<open>A call to a collaborator: the call is recorded, then it returns or raises.\<close>

definition io_call :: "event \<Rightarrow> exn + 'a \<Rightarrow> 'a io" where
  "io_call ev r t = (r, t @ [ev])"

text \<open>\<open>try: m except Exception as e: h e\<close>, and the bare \<open>except:\<close> alike.\<close>

definition try_except :: "'a io \<Rightarrow> (exn \<Rightarrow> 'a io) \<Rightarrow> 'a io" where
  "try_except m h t = (case m t of (Inl e, t') \<Rightarrow> h e t' | (Inr x, t') \<Rightarrow> (Inr x, t'))"

definition logger_error :: "string \<Rightarrow> unit io" where
  "logger_error msg t = (Inr (), t @ [LoggerError msg])"

definition print :: "string \<Rightarrow> unit io" where
  "print msg t = (Inr (), t @ [Print msg])"

section \<open>The collaborators of the sports expert\<close>

text \<open>
  The cache, the local knowledge source, the URL source search, the completion client, the
  search client and \<open>json.loads\<close> are not part of the expert: each is given by what it answers
  to a call, a value or an exception.
\<close>

record env =
  cache_get :: "string \<Rightarrow> exn + string option"
  cache_set :: "string \<Rightarrow> string option \<Rightarrow> exn + unit"
  get_knowledge_base :: "exn + unit"
  find_answer :: "string \<Rightarrow> exn + string option"
  search_url_sources :: "string \<Rightarrow> exn + string option"
  get_completion :: "string \<Rightarrow> string \<Rightarrow> exn + string option"
  web_search :: "string \<Rightarrow> exn + string list option"
  json_loads :: "string \<Rightarrow> exn + json"

section \<open>String constants of the source\<close>

text \<open>Strings are UTF-8 bytes; the letters outside ASCII are named.\<close>

definition tr_i :: string where "tr_i = [CHR 0xC4, CHR 0xB1]"
definition tr_u :: string where "tr_u = [CHR 0xC3, CHR 0xBC]"
definition tr_c :: string where "tr_c = [CHR 0xC3, CHR 0xA7]"
definition tr_C :: string where "tr_C = [CHR 0xC3, CHR 0x87]"
definition tr_g :: string where "tr_g = [CHR 0xC4, CHR 0x9F]"
definition tr_s :: string where "tr_s = [CHR 0xC5, CHR 0x9F]"
definition apostrophe :: string where "apostrophe = [CHR 0x27]"
definition dquote :: string where "dquote = [CHR 0x22]"

definition fallback_message :: string where
  "fallback_message =
     ''I apologize, but I couldn'' @ apostrophe @
     ''t find a satisfactory answer to your sports-related question. '' @
     ''Could you please rephrase or provide more details?''"

definition error_message :: string where
  "error_message =
     ''I encountered an error while processing your sports-related '' @
     ''request. Please try again.''"

definition ai_system_prompt :: string where
  "ai_system_prompt =
     ''You are a sports expert assistant. Provide accurate and helpful '' @
     ''responses\<newline>        about sports, athletes, teams, competitions, '' @
     ''rules, and sports history. If you'' @ apostrophe @
     ''re not confident\<newline>        about the answer, indicate '' @ ''that.''"

definition web_system_prompt :: string where
  "web_system_prompt =
     ''Sen bir spor uzman'' @ tr_i @ ''s'' @ tr_i @ ''n. Web arama sonu'' @ tr_c @ ''lar'' @ tr_i @
     ''n'' @ tr_i @ '' kullanarak soruya kapsaml'' @ tr_i @ '' ve do'' @ tr_g @ ''ru bir yan'' @
     tr_i @ ''t '' @ tr_u @ ''retmelisin.\<newline>            Yan'' @ tr_i @ ''t '' @ tr_u @
     ''retirken '' @ tr_s @ ''u kurallara uy:\<newline>            1. Web arama sonu'' @ tr_c @
     ''lar'' @ tr_i @ ''ndaki bilgilerin do'' @ tr_g @ ''rulu'' @ tr_g @
     ''unu kontrol et\<newline>            2. Bilgilerin g'' @ tr_u @ ''ncelli'' @ tr_g @
     ''ini kontrol et\<newline>            3. '' @ tr_C @ ''eli'' @ tr_s @
     ''kili bilgiler varsa en g'' @ tr_u @ ''venilir kayna'' @ tr_g @ tr_i @ '' se'' @ tr_c @
     ''\<newline>            4. Emin olmad'' @ tr_i @ tr_g @ tr_i @
     ''n bilgileri verme\<newline>            5. Yan'' @ tr_i @ ''t'' @ tr_i @ '' net ve anla'' @
     tr_s @ tr_i @ ''l'' @ tr_i @ ''r bir '' @ tr_s @ ''ekilde ver''"

definition validation_prompt :: string where
  "validation_prompt =
     ''Web arama sonu'' @ tr_c @ ''lar'' @ tr_i @ ''ndan '' @ tr_u @ ''retilen yan'' @ tr_i @
     ''t'' @ tr_i @ ''n do'' @ tr_g @ ''rulu'' @ tr_g @
     ''unu kontrol et.\<newline>                Yan'' @ tr_i @ ''t g'' @ tr_u @ ''venilir ve g'' @
     tr_u @ ''ncel bilgiler i'' @ tr_c @ ''eriyorsa onay ver.\<newline>                Yan'' @
     tr_i @ ''t JSON format'' @ tr_i @ ''nda olmal'' @ tr_i @ '': {'' @ dquote @ ''is_valid'' @
     dquote @ '': boolean, '' @ dquote @ ''reason'' @ dquote @ '': string}''"

text \<open>The name \<open>type(x).__name__\<close> of a value.\<close>

fun type_name :: "json \<Rightarrow> string" where
  "type_name JNull = ''NoneType''"
| "type_name (JBool b) = ''bool''"
| "type_name (JInt i) = ''int''"
| "type_name (JFloat f) = ''float''"
| "type_name (JString s) = ''str''"
| "type_name (JArray xs) = ''list''"
| "type_name (JObject kvs) = ''dict''"

definition attribute_error :: "string \<Rightarrow> string \<Rightarrow> exn" where
  "attribute_error ty attr =
     PyException ''AttributeError''
       (apostrophe @ ty @ apostrophe @ '' object has no attribute '' @ apostrophe @ attr @ apostrophe)"

text \<open>
  \<open>d.get(key, default)\<close>: defined on a dict only; any other value has no attribute \<open>get\<close>.
\<close>

definition py_get :: "json \<Rightarrow> string \<Rightarrow> json \<Rightarrow> exn + json" where
  "py_get d key dflt =
     (case d of
        JObject kvs \<Rightarrow> (case map_of kvs key of None \<Rightarrow> Inr dflt | Some v \<Rightarrow> Inr v)
      | _ \<Rightarrow> Inl (attribute_error (type_name d) ''get''))"

text \<open>The f-strings of \<open>_perform_web_search\<close>.\<close>

definition search_query :: "string \<Rightarrow> string" where
  "search_query query = query @ '' spor haberleri g'' @ tr_u @ ''ncel''"

definition synthesis_prompt :: "string \<Rightarrow> string \<Rightarrow> string" where
  "synthesis_prompt query context =
     ''Soru: '' @ query @
     ''\<newline>\<newline>Web arama sonu'' @ tr_c @ ''lar'' @ tr_i @ '':\<newline>'' @ context @
     ''\<newline>\<newline>Bu bilgileri kullanarak soruya yan'' @ tr_i @ ''t ver.''"

definition validation_query :: "string option \<Rightarrow> string \<Rightarrow> string" where
  "validation_query response context =
     ''Yan'' @ tr_i @ ''t: '' @ format_str response @
     ''\<newline>\<newline>Kaynaklar:\<newline>'' @ context"

section \<open>The sports expert\<close>

text \<open>\<open>_check_local_knowledge\<close>\<close>

definition check_local_knowledge :: "env \<Rightarrow> string \<Rightarrow> string option io" where
  "check_local_knowledge env query =
     try_except
       (io_bind (io_call GetKnowledgeBase (get_knowledge_base env)) (\<lambda>kb.
          io_call (FindAnswer query) (find_answer env query)))
       (\<lambda>e. io_bind (logger_error (''Error checking local knowledge: '' @ exn_str e)) (\<lambda>_.
          io_return None))"

text \<open>\<open>_check_url_sources\<close>\<close>

definition check_url_sources :: "env \<Rightarrow> string \<Rightarrow> string option io" where
  "check_url_sources env query =
     try_except
       (io_call (SearchUrlSources query) (search_url_sources env query))
       (\<lambda>e. io_bind (logger_error (''Error checking URL sources: '' @ exn_str e)) (\<lambda>_.
          io_return None))"

text \<open>\<open>_generate_ai_response\<close>\<close>

definition generate_ai_response :: "env \<Rightarrow> string \<Rightarrow> string option io" where
  "generate_ai_response env query =
     try_except
       (io_bind (io_call (GetCompletion ai_system_prompt query)
                   (get_completion env ai_system_prompt query)) (\<lambda>response.
          io_return response))
       (\<lambda>e. io_bind (logger_error (''Error generating AI response: '' @ exn_str e)) (\<lambda>_.
          io_return None))"

text \<open>
  The inner \<open>try\<close> of \<open>_perform_web_search\<close>: it returns the response when the parsed
  verdict's \<open>is_valid\<close> is truthy; on any exception, or otherwise, control falls to the
  \<open>return None\<close> that follows it. \<open>json.loads(None)\<close> raises a \<open>TypeError\<close>.
\<close>

definition py_json_loads :: "env \<Rightarrow> string option \<Rightarrow> exn + json" where
  "py_json_loads env validation =
     (case validation of
        None \<Rightarrow> Inl (PyException ''TypeError'' ''the JSON object must be str, bytes or bytearray, not NoneType'')
      | Some s \<Rightarrow> json_loads env s)"

definition check_validation :: "env \<Rightarrow> string option \<Rightarrow> string option \<Rightarrow> string option io" where
  "check_validation env validation response =
     try_except
       (io_bind (io_lift (py_json_loads env validation)) (\<lambda>validation_result.
          io_bind (io_lift (py_get validation_result ''is_valid'' (JBool False))) (\<lambda>is_valid.
            if truthy is_valid then io_return response else io_return None)))
       (\<lambda>e. io_return None)"

text \<open>\<open>_perform_web_search\<close>\<close>

definition perform_web_search :: "env \<Rightarrow> string \<Rightarrow> string option io" where
  "perform_web_search env query =
     try_except
       (io_bind (io_call (WebSearch (search_query query)) (web_search env (search_query query)))
          (\<lambda>search_results.
          if \<not> truthy_list search_results then io_return None
          else
            let context = join ''\<newline>'' (take 3 (case search_results of Some xs \<Rightarrow> xs | None \<Rightarrow> []))
            in io_bind (io_call (GetCompletion web_system_prompt (synthesis_prompt query context))
                          (get_completion env web_system_prompt (synthesis_prompt query context)))
                 (\<lambda>response.
                 if truthy_str response then
                   io_bind (io_call (GetCompletion validation_prompt (validation_query response context))
                              (get_completion env validation_prompt (validation_query response context)))
                     (\<lambda>validation. check_validation env validation response)
                 else io_return None)))
       (\<lambda>e. io_bind (logger_error (''Error in web search: '' @ exn_str e)) (\<lambda>_.
          io_return None))"

text \<open>\<open>get_response\<close>\<close>

definition get_response :: "env \<Rightarrow> string \<Rightarrow> string option io" where
  "get_response env query =
     try_except
       (io_bind (io_call (CacheGet query) (cache_get env query)) (\<lambda>cached_response.
          if truthy_str cached_response then io_return cached_response
          else
          io_bind (check_local_knowledge env query) (\<lambda>local_response.
          if truthy_str local_response then
            io_bind (io_call (CacheSet query local_response) (cache_set env query local_response))
              (\<lambda>_. io_return local_response)
          else
          io_bind (check_url_sources env query) (\<lambda>url_response.
          if truthy_str url_response then
            io_bind (io_call (CacheSet query url_response) (cache_set env query url_response))
              (\<lambda>_. io_return url_response)
          else
          io_bind (generate_ai_response env query) (\<lambda>ai_response.
          if truthy_str ai_response then
            io_bind (io_call (CacheSet query ai_response) (cache_set env query ai_response))
              (\<lambda>_. io_return ai_response)
          else
          io_bind (perform_web_search env query) (\<lambda>web_response.
          if truthy_str web_response then
            io_bind (io_call (CacheSet query web_response) (cache_set env query web_response))
              (\<lambda>_. io_return web_response)
          else
          io_return (Some fallback_message)))))))
       (\<lambda>e. io_bind (logger_error (''Error in get_response: '' @ exn_str e)) (\<lambda>_.
          io_return (Some error_message)))"

section \<open>The inbound boundary\<close>

text \<open>
  The module-level objects of the application: each is \<open>None\<close> when the start-up failed. An
  expert is given by its \<open>get_response\<close>, the selector by its \<open>select_expert\<close>, which returns
  the pair \<open>(expert_type, direct_response)\<close>.
\<close>

record globals =
  expert_selector :: "(json \<Rightarrow> (string option \<times> string option) io) option"
  sports_expert :: "(json \<Rightarrow> string option io) option"
  food_expert :: "(json \<Rightarrow> string option io) option"
  ai_expert :: "(json \<Rightarrow> string option io) option"
  sudostar_expert :: "(json \<Rightarrow> string option io) option"

text \<open>What \<open>jsonify\<close> is given: the success payload or the error payload.\<close>

datatype payload =
    Success (answer: "string option") (answer_expert_type: string)
  | Failure (error: string) (code: string)

text \<open>\<open>expert.get_response(question)\<close>; on \<open>None\<close> the attribute does not exist.\<close>

definition expert_get_response :: "(json \<Rightarrow> string option io) option \<Rightarrow> json \<Rightarrow> string option io" where
  "expert_get_response expert question =
     (case expert of
        None \<Rightarrow> io_lift (Inl (attribute_error ''NoneType'' ''get_response''))
      | Some get_resp \<Rightarrow> get_resp question)"

text \<open>
  \<open>ask\<close>: the handler of \<open>/ask\<close>, given the outcome of \<open>request.get_json()\<close>. It returns the
  payload with the HTTP status.
\<close>

definition ask :: "globals \<Rightarrow> exn + json \<Rightarrow> (payload \<times> nat) io" where
  "ask g request_json =
     try_except
       (case expert_selector g of
          None \<Rightarrow> io_return (Failure ''Expert system is not initialized'' ''EXPERT_SYSTEM_ERROR'', 500)
        | Some select_expert \<Rightarrow>
          io_bind (io_call GetJson request_json) (\<lambda>data.
          io_bind (io_lift (py_get data ''question'' JNull)) (\<lambda>question.
          if \<not> truthy question then
            io_return (Failure ''Question is required'' ''MISSING_QUESTION'', 400)
          else
          io_bind (select_expert question) (\<lambda>(expert_type, direct_response).
          io_bind
            (if truthy_str expert_type then
               if expert_type = Some ''sports'' \<and> sports_expert g \<noteq> None then
                 expert_get_response (sports_expert g) question
               else if expert_type = Some ''food'' \<and> food_expert g \<noteq> None then
                 expert_get_response (food_expert g) question
               else if expert_type = Some ''ai'' \<and> ai_expert g \<noteq> None then
                 expert_get_response (ai_expert g) question
               else if expert_type = Some ''sudostar'' \<and> sudostar_expert g \<noteq> None then
                 expert_get_response (sudostar_expert g) question
               else io_return None
             else io_return direct_response) (\<lambda>response.
          if \<not> truthy_str response then
            io_return (Failure ''Could not generate response'' ''NO_RESPONSE'', 500)
          else
            io_return
              (Success response (if truthy_str expert_type then format_str expert_type else ''general''),
               200))))))
       (\<lambda>e. io_bind (print (''Error in /ask endpoint: '' @ exn_str e)) (\<lambda>_.
          io_return (Failure (exn_str e) ''INTERNAL_ERROR'', 500)))"

section \<open>Observing a run\<close>

text \<open>
  The answer a stage helper gives and the events it adds, started from no events. A helper that
  raised would have no answer.
\<close>

definition answer_of :: "string option io \<Rightarrow> string option" where
  "answer_of m = (case fst (m []) of Inl e \<Rightarrow> None | Inr r \<Rightarrow> r)"

definition events_of :: "'a io \<Rightarrow> event list" where
  "events_of m = snd (m [])"

text \<open>
  What follows a stage's non-empty answer in \<open>get_response\<close>: \<open>cache.set\<close> is called with the
  answer, and the answer is returned when the call returns; when the call raises, the handler
  of \<open>get_response\<close> logs the exception and returns the error message.
\<close>

definition store_and_return :: "env \<Rightarrow> string \<Rightarrow> string option \<Rightarrow> string option io" where
  "store_and_return env query a t =
     (case cache_set env query a of
        Inr u \<Rightarrow> (Inr a, t @ [CacheSet query a])
      | Inl e \<Rightarrow> (Inr (Some error_message),
                  t @ [CacheSet query a, LoggerError (''Error in get_response: '' @ exn_str e)]))"

text \<open>The answer of the first stage, in the order of \<open>get_response\<close>, that has one.\<close>

definition first_answer :: "env \<Rightarrow> string \<Rightarrow> string option" where
  "first_answer env query =
     (if truthy_str (answer_of (check_local_knowledge env query)) then
        answer_of (check_local_knowledge env query)
      else if truthy_str (answer_of (check_url_sources env query)) then
        answer_of (check_url_sources env query)
      else if truthy_str (answer_of (generate_ai_response env query)) then
        answer_of (generate_ai_response env query)
      else if truthy_str (answer_of (perform_web_search env query)) then
        answer_of (perform_web_search env query)
      else None)"

text \<open>The events of the stages that run, up to and with the first stage that has an answer.\<close>

definition events_until_answer :: "env \<Rightarrow> string \<Rightarrow> event list" where
  "events_until_answer env query =
     (if truthy_str (answer_of (check_local_knowledge env query)) then
        events_of (check_local_knowledge env query)
      else if truthy_str (answer_of (check_url_sources env query)) then
        events_of (check_local_knowledge env query) @ events_of (check_url_sources env query)
      else if truthy_str (answer_of (generate_ai_response env query)) then
        events_of (check_local_knowledge env query) @ events_of (check_url_sources env query) @
        events_of (generate_ai_response env query)
      else
        events_of (check_local_knowledge env query) @ events_of (check_url_sources env query) @
        events_of (generate_ai_response env query) @ events_of (perform_web_search env query))"

text \<open>Kinds of events.\<close>

fun is_cache_set :: "event \<Rightarrow> bool" where
  "is_cache_set (CacheSet k v) = True"
| "is_cache_set ev = False"

fun is_logger_error :: "event \<Rightarrow> bool" where
  "is_logger_error (LoggerError m) = True"
| "is_logger_error ev = False"

text \<open>A call of \<open>cache.set\<close> that returned, so that the entry was written.\<close>

fun cache_set_returned :: "env \<Rightarrow> event \<Rightarrow> bool" where
  "cache_set_returned env (CacheSet k v) = (case cache_set env k v of Inl e \<Rightarrow> False | Inr u \<Rightarrow> True)"
| "cache_set_returned env ev = False"

text \<open>The record the handler of \<open>get_response\<close> writes.\<close>

fun is_get_response_error :: "event \<Rightarrow> bool" where
  "is_get_response_error (LoggerError m) = (take 23 m = ''Error in get_response: '')"
| "is_get_response_error ev = False"

text \<open>
  The validation step of the web-search stage is reached with response \<open>r\<close>, context \<open>ctx\<close>
  and validation text \<open>v\<close>: the search returned snippets, the synthesis returned the non-empty
  \<open>r\<close>, and the validation call returned \<open>v\<close>.
\<close>

definition web_context :: "string list \<Rightarrow> string" where
  "web_context snippets = join ''\<newline>'' (take 3 snippets)"

definition reaches_validation :: "env \<Rightarrow> string \<Rightarrow> string list \<Rightarrow> string \<Rightarrow> string option \<Rightarrow> bool" where
  "reaches_validation env query snippets r v =
     (web_search env (search_query query) = Inr (Some snippets) \<and> snippets \<noteq> [] \<and>
      get_completion env web_system_prompt (synthesis_prompt query (web_context snippets)) = Inr (Some r) \<and>
      r \<noteq> [] \<and>
      get_completion env validation_prompt (validation_query (Some r) (web_context snippets)) = Inr v)"

text \<open>The events of a web-search stage that reaches the validation step.\<close>

definition validation_events :: "string \<Rightarrow> string list \<Rightarrow> string \<Rightarrow> event list" where
  "validation_events query snippets r =
     [WebSearch (search_query query),
      GetCompletion web_system_prompt (synthesis_prompt query (web_context snippets)),
      GetCompletion validation_prompt (validation_query (Some r) (web_context snippets))]"

text \<open>
  The verdict as the specification words it: a structure that holds both the field
  \<open>is_valid\<close> and the field \<open>reason\<close>.
\<close>

definition has_verdict_fields :: "json \<Rightarrow> bool" where
  "has_verdict_fields j =
     (case j of
        JObject kvs \<Rightarrow> map_of kvs ''is_valid'' \<noteq> None \<and> map_of kvs ''reason'' \<noteq> None
      | _ \<Rightarrow> False)"

text \<open>
  What the code asks of the outcome of \<open>json.loads\<close> instead: nothing was parsed, or the
  parsed value is no dict, or the dict has no entry \<open>is_valid\<close>.
\<close>

definition lacks_is_valid :: "exn + json \<Rightarrow> bool" where
  "lacks_is_valid parsed =
     (case parsed of
        Inl e \<Rightarrow> True
      | Inr (JObject kvs) \<Rightarrow> map_of kvs ''is_valid'' = None
      | Inr j \<Rightarrow> True)"

text \<open>
  The outcomes of \<open>json.loads\<close> on which the code returns the response: a dict whose
  \<open>is_valid\<close> entry is truthy.
\<close>

definition approves :: "exn + json \<Rightarrow> bool" where
  "approves parsed =
     (case parsed of
        Inl e \<Rightarrow> False
      | Inr (JObject kvs) \<Rightarrow> (case map_of kvs ''is_valid'' of None \<Rightarrow> False | Some b \<Rightarrow> truthy b)
      | Inr j \<Rightarrow> False)"

definition is_boolean :: "json \<Rightarrow> bool" where
  "is_boolean j = (case j of JBool b \<Rightarrow> True | _ \<Rightarrow> False)"

text \<open>
  A failure at the top level of \<open>get_response\<close>: \<open>cache.get\<close> raises, or the cache misses,
  a stage has an answer, and \<open>cache.set\<close> raises on it.
\<close>

definition cache_fails :: "env \<Rightarrow> string \<Rightarrow> bool" where
  "cache_fails env query =
     (case cache_get env query of
        Inl e \<Rightarrow> True
      | Inr c \<Rightarrow>
          \<not> truthy_str c \<and> truthy_str (first_answer env query) \<and>
          (case cache_set env query (first_answer env query) of Inl e \<Rightarrow> True | Inr u \<Rightarrow> False))"

section \<open>Sample collaborators\<close>

text \<open>Collaborators that all miss: nothing cached, nothing known, no completion, no snippets.\<close>

definition json_decode_error :: exn where
  "json_decode_error = PyException ''JSONDecodeError'' ''Expecting value: line 1 column 1 (char 0)''"

definition quiet_env :: env where
  "quiet_env =
     \<lparr>cache_get = (\<lambda>k. Inr None),
      cache_set = (\<lambda>k v. Inr ()),
      get_knowledge_base = Inr (),
      find_answer = (\<lambda>q. Inr None),
      search_url_sources = (\<lambda>q. Inr None),
      get_completion = (\<lambda>sp up. Inr None),
      web_search = (\<lambda>q. Inr (Some [])),
      json_loads = (\<lambda>s. Inl json_decode_error)\<rparr>"

definition world_cup_query :: string where
  "world_cup_query = ''Who won the 2022 World Cup?''"

definition argentina :: string where
  "argentina = ''Argentina won the 2022 World Cup.''"

definition final_snippet :: string where
  "final_snippet = ''Argentina beat France on penalties in the 2022 final.''"

definition unavailable :: exn where
  "unavailable = PyException ''ConnectionError'' ''cache unavailable''"

text \<open>The completion service answers the plain question; the earlier stages miss.\<close>

definition env_ai :: env where
  "env_ai = quiet_env
     \<lparr>get_completion := (\<lambda>sp up. if sp = ai_system_prompt then Inr (Some argentina) else Inr None)\<rparr>"

text \<open>The cache holds an answer.\<close>

definition env_hit :: env where
  "env_hit = quiet_env\<lparr>cache_get := (\<lambda>k. Inr (Some argentina))\<rparr>"

text \<open>The cache raises on every read; and a cache that raises on every write.\<close>

definition env_cache_down :: env where
  "env_cache_down = quiet_env\<lparr>cache_get := (\<lambda>k. Inl unavailable)\<rparr>"

definition env_set_fails :: env where
  "env_set_fails = env_ai\<lparr>cache_set := (\<lambda>k v. Inl unavailable)\<rparr>"

text \<open>
  Only the web search has material: one snippet, a synthesis, and a validation text that
  \<open>json.loads\<close> turns into the given outcome.
\<close>

definition env_web :: "string \<Rightarrow> exn + json \<Rightarrow> env" where
  "env_web verdict_text verdict = quiet_env
     \<lparr>get_completion := (\<lambda>sp up.
        if sp = web_system_prompt then Inr (Some argentina)
        else if sp = validation_prompt then Inr (Some verdict_text)
        else Inr None),
      web_search := (\<lambda>q. Inr (Some [final_snippet])),
      json_loads := (\<lambda>s. if s = verdict_text then verdict else Inl json_decode_error)\<rparr>"

text \<open>
  The validation texts \<open>{"is_valid": true}\<close>, \<open>{"is_valid": "false", "reason": "outdated"}\<close>,
  \<open>{"is_valid": true, "reason": "consistent"}\<close> and \<open>{"is_valid": false, "reason": "outdated"}\<close>.
\<close>

definition verdict_without_reason :: string where
  "verdict_without_reason = ''{'' @ dquote @ ''is_valid'' @ dquote @ '': true}''"

definition verdict_with_string :: string where
  "verdict_with_string =
     ''{'' @ dquote @ ''is_valid'' @ dquote @ '': '' @ dquote @ ''false'' @ dquote @ '', '' @
     dquote @ ''reason'' @ dquote @ '': '' @ dquote @ ''outdated'' @ dquote @ ''}''"

definition verdict_approved :: string where
  "verdict_approved =
     ''{'' @ dquote @ ''is_valid'' @ dquote @ '': true, '' @
     dquote @ ''reason'' @ dquote @ '': '' @ dquote @ ''consistent'' @ dquote @ ''}''"

definition verdict_rejected :: string where
  "verdict_rejected =
     ''{'' @ dquote @ ''is_valid'' @ dquote @ '': false, '' @
     dquote @ ''reason'' @ dquote @ '': '' @ dquote @ ''outdated'' @ dquote @ ''}''"

text \<open>Every stage's collaborator raises.\<close>

definition timeout_error :: exn where
  "timeout_error = PyException ''TimeoutError'' ''timed out''"

definition env_failing :: env where
  "env_failing = quiet_env
     \<lparr>get_knowledge_base := Inl timeout_error,
      search_url_sources := (\<lambda>q. Inl timeout_error),
      get_completion := (\<lambda>sp up. Inl timeout_error),
      web_search := (\<lambda>q. Inl timeout_error)\<rparr>"

text \<open>The knowledge lookup raises after the table is loaded, and the synthesis call raises.\<close>

definition env_failing_late :: env where
  "env_failing_late = quiet_env
     \<lparr>find_answer := (\<lambda>q. Inl timeout_error),
      get_completion := (\<lambda>sp up. Inl timeout_error),
      web_search := (\<lambda>q. Inr (Some [final_snippet]))\<rparr>"

text \<open>The synthesis call answers, the validation call raises.\<close>

definition env_validation_down :: env where
  "env_validation_down = quiet_env
     \<lparr>get_completion := (\<lambda>sp up.
        if sp = web_system_prompt then Inr (Some argentina) else Inl timeout_error),
      web_search := (\<lambda>q. Inr (Some [final_snippet]))\<rparr>"

text \<open>
  An application whose selector sends every question to the sports expert, and whose sports
  expert runs \<open>get_response\<close> with the given collaborators on a string question.
\<close>

definition sports_app :: "env \<Rightarrow> globals" where
  "sports_app env =
     \<lparr>expert_selector = Some (\<lambda>question. io_return (Some ''sports'', None)),
      sports_expert = Some (\<lambda>question.
        case question of JString s \<Rightarrow> get_response env s | _ \<Rightarrow> io_return None),
      food_expert = Some (\<lambda>question. io_return None),
      ai_expert = Some (\<lambda>question. io_return None),
      sudostar_expert = Some (\<lambda>question. io_return None)\<rparr>"

definition question_body :: "string \<Rightarrow> exn + json" where
  "question_body q = Inr (JObject [(''question'', JString q)])"

section \<open>The stage helpers, case by case\<close>

lemmas io_defs = io_return_def io_bind_def io_lift_def io_call_def try_except_def logger_error_def

lemma check_local_knowledge_cases:
  "check_local_knowledge env q t =
     (case get_knowledge_base env of
        Inl e \<Rightarrow> (Inr None, t @ [GetKnowledgeBase,
                    LoggerError (''Error checking local knowledge: '' @ exn_str e)])
      | Inr kb \<Rightarrow>
          (case find_answer env q of
             Inl e \<Rightarrow> (Inr None, t @ [GetKnowledgeBase, FindAnswer q,
                         LoggerError (''Error checking local knowledge: '' @ exn_str e)])
           | Inr r \<Rightarrow> (Inr r, t @ [GetKnowledgeBase, FindAnswer q])))"
  by (simp add: check_local_knowledge_def io_defs split: sum.splits)

lemma check_url_sources_cases:
  "check_url_sources env q t =
     (case search_url_sources env q of
        Inl e \<Rightarrow> (Inr None, t @ [SearchUrlSources q,
                    LoggerError (''Error checking URL sources: '' @ exn_str e)])
      | Inr r \<Rightarrow> (Inr r, t @ [SearchUrlSources q]))"
  by (simp add: check_url_sources_def io_defs split: sum.splits)

lemma generate_ai_response_cases:
  "generate_ai_response env q t =
     (case get_completion env ai_system_prompt q of
        Inl e \<Rightarrow> (Inr None, t @ [GetCompletion ai_system_prompt q,
                    LoggerError (''Error generating AI response: '' @ exn_str e)])
      | Inr r \<Rightarrow> (Inr r, t @ [GetCompletion ai_system_prompt q]))"
  by (simp add: generate_ai_response_def io_defs split: sum.splits)

lemma check_validation_cases:
  "check_validation env v r t =
     (case py_json_loads env v of
        Inl e \<Rightarrow> (Inr None, t)
      | Inr j \<Rightarrow>
          (case py_get j ''is_valid'' (JBool False) of
             Inl e \<Rightarrow> (Inr None, t)
           | Inr b \<Rightarrow> (Inr (if truthy b then r else None), t)))"
  by (simp add: check_validation_def io_defs split: sum.splits)

lemma perform_web_search_validation:
  assumes "reaches_validation env q snippets r v"
  shows "perform_web_search env q t =
     (Inr (answer_of (check_validation env v (Some r))), t @ validation_events q snippets r)"
  using assms
  by (simp add: perform_web_search_def reaches_validation_def validation_events_def web_context_def
      truthy_list_def truthy_str_def io_defs Let_def answer_of_def check_validation_cases
      split: sum.splits)

lemma perform_web_search_search_error:
  "web_search env (search_query q) = Inl e \<Longrightarrow>
   perform_web_search env q t =
     (Inr None, t @ [WebSearch (search_query q), LoggerError (''Error in web search: '' @ exn_str e)])"
  by (simp add: perform_web_search_def io_defs)

lemma perform_web_search_no_results:
  "web_search env (search_query q) = Inr rs \<Longrightarrow> \<not> truthy_list rs \<Longrightarrow>
   perform_web_search env q t = (Inr None, t @ [WebSearch (search_query q)])"
  by (simp add: perform_web_search_def io_defs)

lemma perform_web_search_synthesis_error:
  "web_search env (search_query q) = Inr (Some snippets) \<Longrightarrow> snippets \<noteq> [] \<Longrightarrow>
   get_completion env web_system_prompt (synthesis_prompt q (web_context snippets)) = Inl e \<Longrightarrow>
   perform_web_search env q t =
     (Inr None, t @ [WebSearch (search_query q),
        GetCompletion web_system_prompt (synthesis_prompt q (web_context snippets)),
        LoggerError (''Error in web search: '' @ exn_str e)])"
  by (simp add: perform_web_search_def io_defs truthy_list_def web_context_def Let_def)

lemma perform_web_search_validation_error:
  "web_search env (search_query q) = Inr (Some snippets) \<Longrightarrow> snippets \<noteq> [] \<Longrightarrow>
   get_completion env web_system_prompt (synthesis_prompt q (web_context snippets)) = Inr (Some r) \<Longrightarrow>
   r \<noteq> [] \<Longrightarrow>
   get_completion env validation_prompt (validation_query (Some r) (web_context snippets)) = Inl e \<Longrightarrow>
   perform_web_search env q t =
     (Inr None, t @ validation_events q snippets r @ [LoggerError (''Error in web search: '' @ exn_str e)])"
  by (simp add: perform_web_search_def io_defs truthy_list_def truthy_str_def web_context_def
      validation_events_def Let_def)

lemma check_local_knowledge_run:
  "check_local_knowledge env q t =
     (Inr (answer_of (check_local_knowledge env q)), t @ events_of (check_local_knowledge env q))"
  by (simp add: check_local_knowledge_cases answer_of_def events_of_def split: sum.splits)

lemma check_url_sources_run:
  "check_url_sources env q t =
     (Inr (answer_of (check_url_sources env q)), t @ events_of (check_url_sources env q))"
  by (simp add: check_url_sources_cases answer_of_def events_of_def split: sum.splits)

lemma generate_ai_response_run:
  "generate_ai_response env q t =
     (Inr (answer_of (generate_ai_response env q)), t @ events_of (generate_ai_response env q))"
  by (simp add: generate_ai_response_cases answer_of_def events_of_def split: sum.splits)

lemma perform_web_search_run:
  "perform_web_search env q t =
     (Inr (answer_of (perform_web_search env q)), t @ events_of (perform_web_search env q))"
  by (simp add: perform_web_search_def check_validation_def io_defs answer_of_def events_of_def Let_def
           split: sum.splits)

lemma no_cache_set_local: "filter is_cache_set (events_of (check_local_knowledge env q)) = []"
  by (simp add: check_local_knowledge_cases events_of_def split: sum.splits)

lemma no_cache_set_url: "filter is_cache_set (events_of (check_url_sources env q)) = []"
  by (simp add: check_url_sources_cases events_of_def split: sum.splits)

lemma no_cache_set_ai: "filter is_cache_set (events_of (generate_ai_response env q)) = []"
  by (simp add: generate_ai_response_cases events_of_def split: sum.splits)

lemma no_cache_set_web: "filter is_cache_set (events_of (perform_web_search env q)) = []"
  by (simp add: perform_web_search_def check_validation_def io_defs events_of_def Let_def
           split: sum.splits)

lemma no_top_error_local: "filter is_get_response_error (events_of (check_local_knowledge env q)) = []"
  by (simp add: check_local_knowledge_cases events_of_def split: sum.splits)

lemma no_top_error_url: "filter is_get_response_error (events_of (check_url_sources env q)) = []"
  by (simp add: check_url_sources_cases events_of_def split: sum.splits)

lemma no_top_error_ai: "filter is_get_response_error (events_of (generate_ai_response env q)) = []"
  by (simp add: generate_ai_response_cases events_of_def split: sum.splits)

lemma no_top_error_web: "filter is_get_response_error (events_of (perform_web_search env q)) = []"
  by (simp add: perform_web_search_def check_validation_def io_defs events_of_def Let_def
           split: sum.splits)

lemma get_response_miss:
  assumes "cache_get env q = Inr c" and "\<not> truthy_str c"
  shows "get_response env q t =
    (let L = check_local_knowledge env q; U = check_url_sources env q;
         A = generate_ai_response env q; W = perform_web_search env q
     in if truthy_str (answer_of L) then
          store_and_return env q (answer_of L) (t @ CacheGet q # events_of L)
        else if truthy_str (answer_of U) then
          store_and_return env q (answer_of U) (t @ CacheGet q # events_of L @ events_of U)
        else if truthy_str (answer_of A) then
          store_and_return env q (answer_of A)
            (t @ CacheGet q # events_of L @ events_of U @ events_of A)
        else if truthy_str (answer_of W) then
          store_and_return env q (answer_of W)
            (t @ CacheGet q # events_of L @ events_of U @ events_of A @ events_of W)
        else (Inr (Some fallback_message),
              t @ CacheGet q # events_of L @ events_of U @ events_of A @ events_of W))"
  using assms
  apply (simp only: get_response_def Let_def)
  apply (simp add: io_defs store_and_return_def
        check_local_knowledge_run [of env q "t @ [CacheGet q]"]
        check_url_sources_run [of env q "t @ CacheGet q # events_of (check_local_knowledge env q)"]
        generate_ai_response_run [of env q "t @ CacheGet q # events_of (check_local_knowledge env q) @ events_of (check_url_sources env q)"]
        perform_web_search_run [of env q "t @ CacheGet q # events_of (check_local_knowledge env q) @ events_of (check_url_sources env q) @ events_of (generate_ai_response env q)"]
        split: sum.splits)
  done

lemma get_response_hit:
  "cache_get env q = Inr (Some a) \<Longrightarrow> a \<noteq> [] \<Longrightarrow> get_response env q t = (Inr (Some a), t @ [CacheGet q])"
  by (simp add: get_response_def io_defs truthy_str_def)

lemma get_response_cache_error:
  "cache_get env q = Inl e \<Longrightarrow>
   get_response env q t =
     (Inr (Some error_message), t @ [CacheGet q, LoggerError (''Error in get_response: '' @ exn_str e)])"
  by (simp add: get_response_def io_defs)

section \<open>The pipeline of \<open>get_response\<close>\<close>

lemma truthy_strD: "truthy_str a \<Longrightarrow> \<exists>r. a = Some r \<and> r \<noteq> []"
  by (cases a) (simp_all add: truthy_str_def)

lemma fallback_message_nonempty: "fallback_message \<noteq> []"
  by (simp add: fallback_message_def)

lemma error_message_nonempty: "error_message \<noteq> []"
  by (simp add: error_message_def)

lemma first_answer_cases:
  "first_answer env q = None \<or> truthy_str (first_answer env q)"
  by (simp add: first_answer_def)

lemma get_response_miss_compact:
  assumes "cache_get env q = Inr c" and "\<not> truthy_str c"
  shows "get_response env q t =
    (if truthy_str (first_answer env q) then
       store_and_return env q (first_answer env q) (t @ CacheGet q # events_until_answer env q)
     else (Inr (Some fallback_message), t @ CacheGet q # events_until_answer env q))"
  by (simp add: get_response_miss [OF assms] Let_def first_answer_def events_until_answer_def
      truthy_str_def)

lemma no_cache_set_until_answer: "filter is_cache_set (events_until_answer env q) = []"
  by (simp add: events_until_answer_def no_cache_set_local no_cache_set_url no_cache_set_ai
      no_cache_set_web)

lemma no_top_error_until_answer: "filter is_get_response_error (events_until_answer env q) = []"
  by (simp add: events_until_answer_def no_top_error_local no_top_error_url no_top_error_ai
      no_top_error_web)

lemma is_cache_set_returned: "cache_set_returned env ev \<Longrightarrow> is_cache_set ev"
  by (cases ev) simp_all

lemma no_returned_set: "filter is_cache_set es = [] \<Longrightarrow> filter (cache_set_returned env) es = []"
  by (induction es) (auto dest: is_cache_set_returned split: if_splits)

lemma get_response_returns:
  "\<exists>r t'. get_response env q t = (Inr (Some r), t') \<and> r \<noteq> []"
proof (cases "cache_get env q")
  case (Inl e)
  then show ?thesis
    by (simp add: get_response_cache_error error_message_nonempty)
next
  case (Inr c)
  show ?thesis
  proof (cases "truthy_str c")
    case True
    then obtain a where "c = Some a" "a \<noteq> []"
      using truthy_strD by blast
    with Inr show ?thesis
      by (simp add: get_response_hit)
  next
    case False
    show ?thesis
    proof (cases "truthy_str (first_answer env q)")
      case True
      then obtain a where a: "first_answer env q = Some a" "a \<noteq> []"
        using truthy_strD by blast
      show ?thesis
        using True a
        by (simp add: get_response_miss_compact [OF Inr False] store_and_return_def
            error_message_nonempty split: sum.splits)
    next
      case no: False
      then show ?thesis
        by (simp add: get_response_miss_compact [OF Inr False] fallback_message_nonempty)
    qed
  qed
qed

subsection \<open>Stage order\<close>

text \<open>
  Claim C1. For every query that misses the cache, \<open>get_response\<close> tries the stages in the
  fixed order LOCAL_KB, URL_SOURCES, AI_GENERATE, WEB_SEARCH, FALLBACK: the events of a run
  are the cache lookup followed by the events of the stages in that order, and they end with
  the first stage whose answer is non-empty. That answer is passed to \<open>cache.set\<close> as the
  last call of the run, and it is what \<open>get_response\<close> returns once the call has returned.
  When no stage has an answer the fixed fallback message is returned.
\<close>

theorem get_response_stage_order:
  assumes "cache_get env q = Inr c" and "\<not> truthy_str c"
  shows "get_response env q t =
    (let L = check_local_knowledge env q; U = check_url_sources env q;
         A = generate_ai_response env q; W = perform_web_search env q
     in if truthy_str (answer_of L) then
          store_and_return env q (answer_of L) (t @ CacheGet q # events_of L)
        else if truthy_str (answer_of U) then
          store_and_return env q (answer_of U) (t @ CacheGet q # events_of L @ events_of U)
        else if truthy_str (answer_of A) then
          store_and_return env q (answer_of A)
            (t @ CacheGet q # events_of L @ events_of U @ events_of A)
        else if truthy_str (answer_of W) then
          store_and_return env q (answer_of W)
            (t @ CacheGet q # events_of L @ events_of U @ events_of A @ events_of W)
        else (Inr (Some fallback_message),
              t @ CacheGet q # events_of L @ events_of U @ events_of A @ events_of W))"
  using assms by (rule get_response_miss)

lemmas helper_cases = check_local_knowledge_cases check_url_sources_cases generate_ai_response_cases

lemma env_ai_simps:
  "cache_get env_ai = (\<lambda>k. Inr None)" "cache_set env_ai = (\<lambda>k v. Inr ())"
  "get_knowledge_base env_ai = Inr ()" "find_answer env_ai = (\<lambda>q. Inr None)"
  "search_url_sources env_ai = (\<lambda>q. Inr None)"
  "get_completion env_ai ai_system_prompt = (\<lambda>up. Inr (Some argentina))"
  by (simp_all add: env_ai_def quiet_env_def)

theorem get_response_stage_order_witness:
  "cache_get env_ai world_cup_query = Inr None \<and> \<not> truthy_str None \<and>
   get_response env_ai world_cup_query [] =
     (Inr (Some argentina),
      [CacheGet world_cup_query, GetKnowledgeBase, FindAnswer world_cup_query,
       SearchUrlSources world_cup_query, GetCompletion ai_system_prompt world_cup_query,
       CacheSet world_cup_query (Some argentina)])"
  using get_response_stage_order [of env_ai world_cup_query None "[]"]
  by (simp add: env_ai_simps helper_cases answer_of_def events_of_def store_and_return_def
      truthy_str_def argentina_def)

subsection \<open>Cache hits\<close>

text \<open>
  Claim C3. For every query whose cache lookup returns a non-empty answer, \<open>get_response\<close>
  returns that answer at once: the only event of the run is the cache lookup, so no local
  knowledge, URL, completion or search call is made and nothing is written to the cache.
\<close>

theorem get_response_cache_hit:
  assumes "cache_get env q = Inr c" and "truthy_str c"
  shows "get_response env q t = (Inr c, t @ [CacheGet q])"
  using assms by (simp add: get_response_def io_defs)

theorem get_response_cache_hit_witness:
  "cache_get env_hit world_cup_query = Inr (Some argentina) \<and> truthy_str (Some argentina) \<and>
   get_response env_hit world_cup_query [] = (Inr (Some argentina), [CacheGet world_cup_query])"
  using get_response_cache_hit [of env_hit world_cup_query "Some argentina" "[]"]
  by (simp add: env_hit_def quiet_env_def truthy_str_def argentina_def)

subsection \<open>Exhaustion\<close>

lemma quiet_env_simps:
  "cache_get quiet_env = (\<lambda>k. Inr None)" "cache_set quiet_env = (\<lambda>k v. Inr ())"
  "get_knowledge_base quiet_env = Inr ()" "find_answer quiet_env = (\<lambda>q. Inr None)"
  "search_url_sources quiet_env = (\<lambda>q. Inr None)"
  "get_completion quiet_env = (\<lambda>sp up. Inr None)"
  "web_search quiet_env = (\<lambda>q. Inr (Some []))"
  "json_loads quiet_env = (\<lambda>s. Inl json_decode_error)"
  by (simp_all add: quiet_env_def)

lemma quiet_env_answers:
  "answer_of (check_local_knowledge quiet_env q) = None"
  "answer_of (check_url_sources quiet_env q) = None"
  "answer_of (generate_ai_response quiet_env q) = None"
  "answer_of (perform_web_search quiet_env q) = None"
  "events_of (check_local_knowledge quiet_env q) = [GetKnowledgeBase, FindAnswer q]"
  "events_of (check_url_sources quiet_env q) = [SearchUrlSources q]"
  "events_of (generate_ai_response quiet_env q) = [GetCompletion ai_system_prompt q]"
  "events_of (perform_web_search quiet_env q) = [WebSearch (search_query q)]"
  by (simp_all add: answer_of_def events_of_def helper_cases quiet_env_simps
      perform_web_search_no_results [where rs = "Some []"] truthy_list_def)

text \<open>
  Claim C5. For every query, \<open>get_response\<close> returns, and what it returns is a non-empty
  string, never the empty string and never \<open>None\<close>. When the cache misses and every one of
  the four stages misses or fails, it returns the fixed fallback message.
\<close>

theorem get_response_never_empty:
  "(\<exists>r t'. get_response env q t = (Inr (Some r), t') \<and> r \<noteq> []) \<and>
   (\<forall>c. cache_get env q = Inr c \<longrightarrow> \<not> truthy_str c \<longrightarrow>
      \<not> truthy_str (answer_of (check_local_knowledge env q)) \<longrightarrow>
      \<not> truthy_str (answer_of (check_url_sources env q)) \<longrightarrow>
      \<not> truthy_str (answer_of (generate_ai_response env q)) \<longrightarrow>
      \<not> truthy_str (answer_of (perform_web_search env q)) \<longrightarrow>
      fst (get_response env q t) = Inr (Some fallback_message))"
proof
  show "\<exists>r t'. get_response env q t = (Inr (Some r), t') \<and> r \<noteq> []"
    by (rule get_response_returns)
next
  show "\<forall>c. cache_get env q = Inr c \<longrightarrow> \<not> truthy_str c \<longrightarrow>
      \<not> truthy_str (answer_of (check_local_knowledge env q)) \<longrightarrow>
      \<not> truthy_str (answer_of (check_url_sources env q)) \<longrightarrow>
      \<not> truthy_str (answer_of (generate_ai_response env q)) \<longrightarrow>
      \<not> truthy_str (answer_of (perform_web_search env q)) \<longrightarrow>
      fst (get_response env q t) = Inr (Some fallback_message)"
    by (simp add: get_response_miss Let_def)
qed

theorem get_response_never_empty_witness:
  "cache_get quiet_env world_cup_query = Inr None \<and> \<not> truthy_str None \<and>
   \<not> truthy_str (answer_of (check_local_knowledge quiet_env world_cup_query)) \<and>
   \<not> truthy_str (answer_of (check_url_sources quiet_env world_cup_query)) \<and>
   \<not> truthy_str (answer_of (generate_ai_response quiet_env world_cup_query)) \<and>
   \<not> truthy_str (answer_of (perform_web_search quiet_env world_cup_query)) \<and>
   fst (get_response quiet_env world_cup_query []) = Inr (Some fallback_message) \<and>
   fallback_message \<noteq> []"
  using get_response_never_empty [of quiet_env world_cup_query "[]"]
  by (simp add: quiet_env_simps quiet_env_answers truthy_str_def fallback_message_nonempty)

text \<open>
  Claim C6. When the cache misses and all four stages LOCAL_KB, URL_SOURCES, AI_GENERATE and
  WEB_SEARCH miss or fail, \<open>get_response\<close> returns the fixed apology string, and the run makes
  no call of \<open>cache.set\<close>: neither the fallback string nor anything else is written.
\<close>

theorem fallback_is_not_cached:
  assumes "cache_get env q = Inr c" and "\<not> truthy_str c"
    and "\<not> truthy_str (answer_of (check_local_knowledge env q))"
    and "\<not> truthy_str (answer_of (check_url_sources env q))"
    and "\<not> truthy_str (answer_of (generate_ai_response env q))"
    and "\<not> truthy_str (answer_of (perform_web_search env q))"
  shows "get_response env q t =
           (Inr (Some fallback_message),
            t @ CacheGet q # events_of (check_local_knowledge env q) @
              events_of (check_url_sources env q) @ events_of (generate_ai_response env q) @
              events_of (perform_web_search env q)) \<and>
         filter is_cache_set (events_of (get_response env q)) = []"
proof -
  have run: "get_response env q u =
           (Inr (Some fallback_message),
            u @ CacheGet q # events_of (check_local_knowledge env q) @
              events_of (check_url_sources env q) @ events_of (generate_ai_response env q) @
              events_of (perform_web_search env q))" for u
    using assms by (simp add: get_response_miss Let_def)
  have "filter is_cache_set (events_of (get_response env q)) = []"
    by (simp add: events_of_def [of "get_response env q"] run no_cache_set_local no_cache_set_url
        no_cache_set_ai no_cache_set_web)
  with run show ?thesis by simp
qed

theorem fallback_is_not_cached_witness:
  "cache_get quiet_env world_cup_query = Inr None \<and> \<not> truthy_str None \<and>
   \<not> truthy_str (answer_of (check_local_knowledge quiet_env world_cup_query)) \<and>
   \<not> truthy_str (answer_of (check_url_sources quiet_env world_cup_query)) \<and>
   \<not> truthy_str (answer_of (generate_ai_response quiet_env world_cup_query)) \<and>
   \<not> truthy_str (answer_of (perform_web_search quiet_env world_cup_query)) \<and>
   get_response quiet_env world_cup_query [] =
     (Inr (Some fallback_message),
      [CacheGet world_cup_query, GetKnowledgeBase, FindAnswer world_cup_query,
       SearchUrlSources world_cup_query, GetCompletion ai_system_prompt world_cup_query,
       WebSearch (search_query world_cup_query)]) \<and>
   filter is_cache_set (events_of (get_response quiet_env world_cup_query)) = []"
  using fallback_is_not_cached [of quiet_env world_cup_query None "[]"]
  by (simp add: quiet_env_simps quiet_env_answers truthy_str_def)

subsection \<open>Totality\<close>

lemma get_response_set_error:
  assumes "cache_get env q = Inr c" and "\<not> truthy_str c"
    and "truthy_str (first_answer env q)"
    and "cache_set env q (first_answer env q) = Inl e"
  shows "get_response env q t =
           (Inr (Some error_message),
            t @ CacheGet q # events_until_answer env q @
              [CacheSet q (first_answer env q),
               LoggerError (''Error in get_response: '' @ exn_str e)])"
  using assms by (simp add: get_response_miss_compact store_and_return_def)

text \<open>
  Claim C10. \<open>get_response\<close> is total: for every query and all collaborators it returns a
  non-empty string and raises nothing. An exception in the pipeline body comes from the cache:
  when \<open>cache.get\<close> raises, or when \<open>cache.set\<close> raises on the answer of the first answering
  stage, the handler logs it and the fixed error message is returned. On both paths no call
  of \<open>cache.set\<close> has returned, so nothing was written to the cache.
\<close>

theorem get_response_total:
  "(\<exists>r t'. get_response env q t = (Inr (Some r), t') \<and> r \<noteq> []) \<and>
   (\<forall>e. cache_get env q = Inl e \<longrightarrow>
      get_response env q t =
        (Inr (Some error_message),
         t @ [CacheGet q, LoggerError (''Error in get_response: '' @ exn_str e)]) \<and>
      filter (cache_set_returned env) (events_of (get_response env q)) = []) \<and>
   (\<forall>c e. cache_get env q = Inr c \<longrightarrow> \<not> truthy_str c \<longrightarrow>
      truthy_str (first_answer env q) \<longrightarrow> cache_set env q (first_answer env q) = Inl e \<longrightarrow>
      get_response env q t =
        (Inr (Some error_message),
         t @ CacheGet q # events_until_answer env q @
           [CacheSet q (first_answer env q),
            LoggerError (''Error in get_response: '' @ exn_str e)]) \<and>
      filter (cache_set_returned env) (events_of (get_response env q)) = [])"
proof (intro conjI allI impI)
  show "\<exists>r t'. get_response env q t = (Inr (Some r), t') \<and> r \<noteq> []"
    by (rule get_response_returns)
next
  fix e assume "cache_get env q = Inl e"
  then show "get_response env q t =
        (Inr (Some error_message),
         t @ [CacheGet q, LoggerError (''Error in get_response: '' @ exn_str e)])"
    and "filter (cache_set_returned env) (events_of (get_response env q)) = []"
    by (simp_all add: get_response_cache_error events_of_def)
next
  fix c e
  assume a: "cache_get env q = Inr c" "\<not> truthy_str c" "truthy_str (first_answer env q)"
    "cache_set env q (first_answer env q) = Inl e"
  show "get_response env q t =
        (Inr (Some error_message),
         t @ CacheGet q # events_until_answer env q @
           [CacheSet q (first_answer env q),
            LoggerError (''Error in get_response: '' @ exn_str e)])"
    by (rule get_response_set_error [OF a])
  show "filter (cache_set_returned env) (events_of (get_response env q)) = []"
    using a(4)
    by (simp add: events_of_def [of "get_response env q"] get_response_set_error [OF a]
        no_returned_set [OF no_cache_set_until_answer])
qed

lemma env_set_fails_simps:
  "cache_get env_set_fails = (\<lambda>k. Inr None)" "cache_set env_set_fails = (\<lambda>k v. Inl unavailable)"
  "get_knowledge_base env_set_fails = Inr ()" "find_answer env_set_fails = (\<lambda>q. Inr None)"
  "search_url_sources env_set_fails = (\<lambda>q. Inr None)"
  "get_completion env_set_fails ai_system_prompt = (\<lambda>up. Inr (Some argentina))"
  by (simp_all add: env_set_fails_def env_ai_def quiet_env_def)

lemma env_set_fails_first:
  "first_answer env_set_fails q = Some argentina"
  "events_until_answer env_set_fails q =
     [GetKnowledgeBase, FindAnswer q, SearchUrlSources q, GetCompletion ai_system_prompt q]"
  by (simp_all add: first_answer_def events_until_answer_def answer_of_def events_of_def
      helper_cases env_set_fails_simps truthy_str_def argentina_def)

theorem get_response_total_witness:
  "cache_get env_cache_down world_cup_query = Inl unavailable \<and>
   get_response env_cache_down world_cup_query [] =
     (Inr (Some error_message),
      [CacheGet world_cup_query, LoggerError ''Error in get_response: cache unavailable'']) \<and>
   cache_get env_set_fails world_cup_query = Inr None \<and> \<not> truthy_str None \<and>
   truthy_str (first_answer env_set_fails world_cup_query) \<and>
   cache_set env_set_fails world_cup_query (first_answer env_set_fails world_cup_query) =
     Inl unavailable \<and>
   get_response env_set_fails world_cup_query [] =
     (Inr (Some error_message),
      [CacheGet world_cup_query, GetKnowledgeBase, FindAnswer world_cup_query,
       SearchUrlSources world_cup_query, GetCompletion ai_system_prompt world_cup_query,
       CacheSet world_cup_query (Some argentina),
       LoggerError ''Error in get_response: cache unavailable'']) \<and>
   filter (cache_set_returned env_set_fails)
     (events_of (get_response env_set_fails world_cup_query)) = [] \<and>
   error_message \<noteq> []"
  using get_response_total [of env_cache_down world_cup_query "[]"]
    get_response_total [of env_set_fails world_cup_query "[]"]
  by (simp add: env_cache_down_def quiet_env_def env_set_fails_simps env_set_fails_first
      truthy_str_def argentina_def unavailable_def error_message_nonempty)

section \<open>The validation step of the web-search stage\<close>

lemma prompts_distinct:
  "ai_system_prompt \<noteq> web_system_prompt" "ai_system_prompt \<noteq> validation_prompt"
  "validation_prompt \<noteq> web_system_prompt"
  by (simp_all add: ai_system_prompt_def web_system_prompt_def validation_prompt_def)

lemma env_web_simps:
  "cache_get (env_web vt vj) = (\<lambda>k. Inr None)" "cache_set (env_web vt vj) = (\<lambda>k v. Inr ())"
  "get_knowledge_base (env_web vt vj) = Inr ()" "find_answer (env_web vt vj) = (\<lambda>q. Inr None)"
  "search_url_sources (env_web vt vj) = (\<lambda>q. Inr None)"
  "get_completion (env_web vt vj) ai_system_prompt = (\<lambda>up. Inr None)"
  "get_completion (env_web vt vj) web_system_prompt = (\<lambda>up. Inr (Some argentina))"
  "get_completion (env_web vt vj) validation_prompt = (\<lambda>up. Inr (Some vt))"
  "web_search (env_web vt vj) = (\<lambda>q. Inr (Some [final_snippet]))"
  "json_loads (env_web vt vj) vt = vj"
  by (simp_all add: env_web_def quiet_env_def prompts_distinct)

lemma argentina_nonempty: "argentina \<noteq> []"
  by (simp add: argentina_def)

lemma env_web_reaches:
  "reaches_validation (env_web vt vj) q [final_snippet] argentina (Some vt)"
  by (simp add: reaches_validation_def env_web_simps argentina_nonempty)

lemma env_web_early_stages:
  "answer_of (check_local_knowledge (env_web vt vj) q) = None"
  "answer_of (check_url_sources (env_web vt vj) q) = None"
  "answer_of (generate_ai_response (env_web vt vj) q) = None"
  "events_of (check_local_knowledge (env_web vt vj) q) = [GetKnowledgeBase, FindAnswer q]"
  "events_of (check_url_sources (env_web vt vj) q) = [SearchUrlSources q]"
  "events_of (generate_ai_response (env_web vt vj) q) = [GetCompletion ai_system_prompt q]"
  by (simp_all add: answer_of_def events_of_def helper_cases env_web_simps)

lemma answer_of_check_validation:
  "answer_of (check_validation env v r) =
     (case py_json_loads env v of
        Inl e \<Rightarrow> None
      | Inr j \<Rightarrow> (case py_get j ''is_valid'' (JBool False) of
                   Inl e \<Rightarrow> None
                 | Inr b \<Rightarrow> if truthy b then r else None))"
  by (simp add: answer_of_def check_validation_cases split: sum.splits)

lemma web_answer_events:
  assumes "perform_web_search env q [] = (Inr a, es)"
  shows "answer_of (perform_web_search env q) = a" "events_of (perform_web_search env q) = es"
  using assms by (simp_all add: answer_of_def events_of_def)

subsection \<open>Verdicts that do not parse\<close>

text \<open>
  Claim C2 asks that a validation response which does not parse as a structure holding both
  \<open>is_valid\<close> and \<open>reason\<close> yields no answer. The code never reads \<open>reason\<close>: the response
  \<open>{"is_valid": true}\<close> lacks the field, and the stage returns the synthesized answer, which
  \<open>get_response\<close> returns in turn.
\<close>

theorem missing_reason_counterexample:
  "\<not> has_verdict_fields (JObject [(''is_valid'', JBool True)]) \<and>
   json_loads (env_web verdict_without_reason (Inr (JObject [(''is_valid'', JBool True)])))
     verdict_without_reason = Inr (JObject [(''is_valid'', JBool True)]) \<and>
   perform_web_search (env_web verdict_without_reason (Inr (JObject [(''is_valid'', JBool True)])))
     world_cup_query [] =
     (Inr (Some argentina), validation_events world_cup_query [final_snippet] argentina) \<and>
   fst (get_response (env_web verdict_without_reason (Inr (JObject [(''is_valid'', JBool True)])))
     world_cup_query []) = Inr (Some argentina)"
proof -
  let ?E = "env_web verdict_without_reason (Inr (JObject [(''is_valid'', JBool True)]))"
  have web: "perform_web_search ?E world_cup_query [] =
     (Inr (Some argentina), validation_events world_cup_query [final_snippet] argentina)"
    by (simp add: perform_web_search_validation [OF env_web_reaches] answer_of_check_validation
        py_json_loads_def env_web_simps py_get_def)
  have "fst (get_response ?E world_cup_query []) = Inr (Some argentina)"
    by (simp add: get_response_miss [of ?E world_cup_query None] env_web_simps truthy_str_def
        env_web_early_stages web_answer_events [OF web] argentina_nonempty store_and_return_def)
  with web show ?thesis
    by (simp add: has_verdict_fields_def env_web_simps)
qed

text \<open>
  Claim C2, as the code has it. In the web-search stage, if the validation response is not
  parsed by \<open>json.loads\<close>, or is parsed to a value that is no object, or to an object without
  the field \<open>is_valid\<close>, the stage yields no answer, and a pipeline whose cache and earlier
  stages missed falls through to the fallback message: such a response is never treated as
  approval.
\<close>

theorem unparsable_verdict_is_rejected:
  assumes "reaches_validation env q snippets r v"
    and "lacks_is_valid (py_json_loads env v)"
    and "cache_get env q = Inr c" and "\<not> truthy_str c"
    and "\<not> truthy_str (answer_of (check_local_knowledge env q))"
    and "\<not> truthy_str (answer_of (check_url_sources env q))"
    and "\<not> truthy_str (answer_of (generate_ai_response env q))"
  shows "perform_web_search env q t = (Inr None, t @ validation_events q snippets r) \<and>
         fst (get_response env q t) = Inr (Some fallback_message)"
proof -
  have "answer_of (check_validation env v (Some r)) = None"
    using assms(2)
    by (auto simp add: answer_of_check_validation lacks_is_valid_def py_get_def
        split: sum.splits json.splits option.splits)
  then have web: "perform_web_search env q u = (Inr None, u @ validation_events q snippets r)" for u
    by (simp add: perform_web_search_validation [OF assms(1)])
  have "fst (get_response env q t) = Inr (Some fallback_message)"
    using assms(5-7)
    by (simp add: get_response_miss [OF assms(3,4)] Let_def web_answer_events [OF web [of "[]", simplified]]
        truthy_str_def)
  with web show ?thesis by simp
qed

theorem unparsable_verdict_is_rejected_witness:
  "reaches_validation (env_web ''not json'' (Inl json_decode_error)) world_cup_query
     [final_snippet] argentina (Some ''not json'') \<and>
   lacks_is_valid (py_json_loads (env_web ''not json'' (Inl json_decode_error)) (Some ''not json'')) \<and>
   cache_get (env_web ''not json'' (Inl json_decode_error)) world_cup_query = Inr None \<and>
   \<not> truthy_str None \<and>
   perform_web_search (env_web ''not json'' (Inl json_decode_error)) world_cup_query [] =
     (Inr None, validation_events world_cup_query [final_snippet] argentina) \<and>
   fst (get_response (env_web ''not json'' (Inl json_decode_error)) world_cup_query []) =
     Inr (Some fallback_message)"
  using unparsable_verdict_is_rejected [of "env_web ''not json'' (Inl json_decode_error)"
      world_cup_query "[final_snippet]" argentina "Some ''not json''" None "[]"]
  by (simp add: env_web_reaches env_web_simps env_web_early_stages truthy_str_def
      lacks_is_valid_def py_json_loads_def)

subsection \<open>Verdicts whose \<open>is_valid\<close> is not a boolean\<close>

text \<open>
  What the validation step computes: the synthesized answer is returned exactly when
  \<open>json.loads\<close> gives an object whose \<open>is_valid\<close> entry is truthy.
\<close>

lemma perform_web_search_verdict:
  assumes "reaches_validation env q snippets r v"
  shows "perform_web_search env q t =
     (Inr (if approves (py_json_loads env v) then Some r else None),
      t @ validation_events q snippets r)"
  by (simp add: perform_web_search_validation [OF assms] answer_of_check_validation py_get_def
      approves_def split: sum.splits json.splits option.splits)

text \<open>With a boolean \<open>is_valid\<close> the step does what the verdict says.\<close>

lemma boolean_verdicts:
  "perform_web_search
     (env_web verdict_approved (Inr (JObject [(''is_valid'', JBool True), (''reason'', JString ''consistent'')])))
     world_cup_query [] =
     (Inr (Some argentina), validation_events world_cup_query [final_snippet] argentina)"
  "perform_web_search
     (env_web verdict_rejected (Inr (JObject [(''is_valid'', JBool False), (''reason'', JString ''outdated'')])))
     world_cup_query [] =
     (Inr None, validation_events world_cup_query [final_snippet] argentina)"
  by (simp_all add: perform_web_search_verdict [OF env_web_reaches] py_json_loads_def env_web_simps
      approves_def)

text \<open>
  Claim C4. The validation response is to be read as a strict verdict whose \<open>is_valid\<close> is a
  boolean: the synthesized answer is returned only when \<open>is_valid\<close> is the boolean true, and a
  verdict whose \<open>is_valid\<close> is not a boolean is not approval. The code tests the value for
  truthiness instead. On the validation response \<open>{"is_valid": "false", "reason": "outdated"}\<close>
  the value is the string \<open>false\<close>, which is no boolean and is truthy: the web-search stage
  returns the answer the validator refused, and \<open>get_response\<close> stores it in the cache and
  returns it.
\<close>

theorem string_verdict_is_approved:
  "\<not> is_boolean (JString ''false'') \<and>
   json_loads (env_web verdict_with_string
       (Inr (JObject [(''is_valid'', JString ''false''), (''reason'', JString ''outdated'')])))
     verdict_with_string =
     Inr (JObject [(''is_valid'', JString ''false''), (''reason'', JString ''outdated'')]) \<and>
   perform_web_search (env_web verdict_with_string
       (Inr (JObject [(''is_valid'', JString ''false''), (''reason'', JString ''outdated'')])))
     world_cup_query [] =
     (Inr (Some argentina), validation_events world_cup_query [final_snippet] argentina) \<and>
   get_response (env_web verdict_with_string
       (Inr (JObject [(''is_valid'', JString ''false''), (''reason'', JString ''outdated'')])))
     world_cup_query [] =
     (Inr (Some argentina),
      [CacheGet world_cup_query, GetKnowledgeBase, FindAnswer world_cup_query,
       SearchUrlSources world_cup_query, GetCompletion ai_system_prompt world_cup_query,
       WebSearch (search_query world_cup_query),
       GetCompletion web_system_prompt
         (synthesis_prompt world_cup_query (web_context [final_snippet])),
       GetCompletion validation_prompt
         (validation_query (Some argentina) (web_context [final_snippet])),
       CacheSet world_cup_query (Some argentina)])"
proof -
  let ?E = "env_web verdict_with_string
       (Inr (JObject [(''is_valid'', JString ''false''), (''reason'', JString ''outdated'')]))"
  have web: "perform_web_search ?E world_cup_query [] =
     (Inr (Some argentina), validation_events world_cup_query [final_snippet] argentina)"
    by (simp add: perform_web_search_verdict [OF env_web_reaches] py_json_loads_def env_web_simps
        approves_def)
  have "get_response ?E world_cup_query [] =
     (Inr (Some argentina),
      [CacheGet world_cup_query, GetKnowledgeBase, FindAnswer world_cup_query,
       SearchUrlSources world_cup_query, GetCompletion ai_system_prompt world_cup_query,
       WebSearch (search_query world_cup_query),
       GetCompletion web_system_prompt
         (synthesis_prompt world_cup_query (web_context [final_snippet])),
       GetCompletion validation_prompt
         (validation_query (Some argentina) (web_context [final_snippet])),
       CacheSet world_cup_query (Some argentina)])"
    by (simp add: get_response_miss [of ?E world_cup_query None] env_web_simps truthy_str_def
        env_web_early_stages web_answer_events [OF web] argentina_nonempty store_and_return_def
        validation_events_def)
  with web show ?thesis
    by (simp add: is_boolean_def env_web_simps)
qed

text \<open>
  A whole run in which only the web search has material and the verdict approves: the stages
  are called in order, the completion service is asked before the search service, and the
  answer is stored last.
\<close>

lemma get_response_web_scenario:
  "get_response
     (env_web verdict_approved
        (Inr (JObject [(''is_valid'', JBool True), (''reason'', JString ''consistent'')])))
     world_cup_query [] =
     (Inr (Some argentina),
      [CacheGet world_cup_query, GetKnowledgeBase, FindAnswer world_cup_query,
       SearchUrlSources world_cup_query, GetCompletion ai_system_prompt world_cup_query,
       WebSearch (search_query world_cup_query),
       GetCompletion web_system_prompt
         (synthesis_prompt world_cup_query (web_context [final_snippet])),
       GetCompletion validation_prompt
         (validation_query (Some argentina) (web_context [final_snippet])),
       CacheSet world_cup_query (Some argentina)])"
proof -
  let ?E = "env_web verdict_approved
        (Inr (JObject [(''is_valid'', JBool True), (''reason'', JString ''consistent'')]))"
  have web: "perform_web_search ?E world_cup_query [] =
     (Inr (Some argentina), validation_events world_cup_query [final_snippet] argentina)"
    by (simp add: perform_web_search_validation [OF env_web_reaches] answer_of_check_validation
        py_json_loads_def env_web_simps py_get_def)
  show ?thesis
    by (simp add: get_response_miss [of ?E world_cup_query None] env_web_simps truthy_str_def
        env_web_early_stages web_answer_events [OF web] argentina_nonempty store_and_return_def
        validation_events_def)
qed

section \<open>Failures inside a stage\<close>

text \<open>
  Claim C7 asks that every stage-local failure, a malformed validation payload among them, is
  caught in the helper, logged, and turned into no answer. A payload that \<open>json.loads\<close>
  rejects is caught by the inner bare \<open>except\<close>, which passes: the stage yields no answer and
  the run holds no logger record.
\<close>

theorem malformed_verdict_counterexample:
  "json_loads (env_web ''not json'' (Inl json_decode_error)) ''not json'' = Inl json_decode_error \<and>
   perform_web_search (env_web ''not json'' (Inl json_decode_error)) world_cup_query [] =
     (Inr None, validation_events world_cup_query [final_snippet] argentina) \<and>
   filter is_logger_error (validation_events world_cup_query [final_snippet] argentina) = []"
  by (simp add: perform_web_search_validation [OF env_web_reaches] answer_of_check_validation
      py_json_loads_def env_web_simps validation_events_def)

text \<open>
  Claim C7, as the code has it. No helper of the stages LOCAL_KB, URL_SOURCES, AI_GENERATE and
  WEB_SEARCH raises: each returns its answer, whatever the collaborators do. When the
  knowledge table or the lookup, the URL search, the completion call or the search call raises,
  the helper logs the exception and returns no answer. When the validation payload is rejected
  by \<open>json.loads\<close>, or is parsed to a value without \<open>get\<close>, the stage returns no answer and
  logs nothing.
\<close>

theorem stage_failures_are_contained:
  "fst (check_local_knowledge env q t) = Inr (answer_of (check_local_knowledge env q)) \<and>
   fst (check_url_sources env q t) = Inr (answer_of (check_url_sources env q)) \<and>
   fst (generate_ai_response env q t) = Inr (answer_of (generate_ai_response env q)) \<and>
   fst (perform_web_search env q t) = Inr (answer_of (perform_web_search env q)) \<and>
   (\<forall>e. get_knowledge_base env = Inl e \<longrightarrow>
      check_local_knowledge env q t =
        (Inr None, t @ [GetKnowledgeBase,
           LoggerError (''Error checking local knowledge: '' @ exn_str e)])) \<and>
   (\<forall>kb e. get_knowledge_base env = Inr kb \<longrightarrow> find_answer env q = Inl e \<longrightarrow>
      check_local_knowledge env q t =
        (Inr None, t @ [GetKnowledgeBase, FindAnswer q,
           LoggerError (''Error checking local knowledge: '' @ exn_str e)])) \<and>
   (\<forall>e. search_url_sources env q = Inl e \<longrightarrow>
      check_url_sources env q t =
        (Inr None, t @ [SearchUrlSources q,
           LoggerError (''Error checking URL sources: '' @ exn_str e)])) \<and>
   (\<forall>e. get_completion env ai_system_prompt q = Inl e \<longrightarrow>
      generate_ai_response env q t =
        (Inr None, t @ [GetCompletion ai_system_prompt q,
           LoggerError (''Error generating AI response: '' @ exn_str e)])) \<and>
   (\<forall>e. web_search env (search_query q) = Inl e \<longrightarrow>
      perform_web_search env q t =
        (Inr None, t @ [WebSearch (search_query q),
           LoggerError (''Error in web search: '' @ exn_str e)])) \<and>
   (\<forall>snippets e. web_search env (search_query q) = Inr (Some snippets) \<longrightarrow> snippets \<noteq> [] \<longrightarrow>
      get_completion env web_system_prompt (synthesis_prompt q (web_context snippets)) = Inl e \<longrightarrow>
      perform_web_search env q t =
        (Inr None, t @ [WebSearch (search_query q),
           GetCompletion web_system_prompt (synthesis_prompt q (web_context snippets)),
           LoggerError (''Error in web search: '' @ exn_str e)])) \<and>
   (\<forall>snippets r e. web_search env (search_query q) = Inr (Some snippets) \<longrightarrow> snippets \<noteq> [] \<longrightarrow>
      get_completion env web_system_prompt (synthesis_prompt q (web_context snippets)) =
        Inr (Some r) \<longrightarrow> r \<noteq> [] \<longrightarrow>
      get_completion env validation_prompt (validation_query (Some r) (web_context snippets)) =
        Inl e \<longrightarrow>
      perform_web_search env q t =
        (Inr None, t @ validation_events q snippets r @
           [LoggerError (''Error in web search: '' @ exn_str e)])) \<and>
   (\<forall>snippets r v e. reaches_validation env q snippets r v \<longrightarrow> py_json_loads env v = Inl e \<longrightarrow>
      perform_web_search env q t = (Inr None, t @ validation_events q snippets r)) \<and>
   (\<forall>snippets r v j e. reaches_validation env q snippets r v \<longrightarrow> py_json_loads env v = Inr j \<longrightarrow>
      py_get j ''is_valid'' (JBool False) = Inl e \<longrightarrow>
      perform_web_search env q t = (Inr None, t @ validation_events q snippets r))"
  apply (intro conjI allI impI)
  subgoal by (simp add: check_local_knowledge_run)
  subgoal by (simp add: check_url_sources_run)
  subgoal by (simp add: generate_ai_response_run)
  subgoal by (simp add: perform_web_search_run)
  subgoal by (simp add: check_local_knowledge_cases)
  subgoal by (simp add: check_local_knowledge_cases)
  subgoal by (simp add: check_url_sources_cases)
  subgoal by (simp add: generate_ai_response_cases)
  subgoal by (simp add: perform_web_search_search_error)
  subgoal by (simp add: perform_web_search_synthesis_error)
  subgoal by (simp add: perform_web_search_validation_error)
  subgoal by (simp add: perform_web_search_validation answer_of_check_validation)
  subgoal by (simp add: perform_web_search_validation answer_of_check_validation)
  done

lemma env_failing_simps:
  "get_knowledge_base env_failing = Inl timeout_error"
  "search_url_sources env_failing = (\<lambda>q. Inl timeout_error)"
  "get_completion env_failing = (\<lambda>sp up. Inl timeout_error)"
  "web_search env_failing = (\<lambda>q. Inl timeout_error)"
  "get_knowledge_base env_failing_late = Inr ()"
  "find_answer env_failing_late = (\<lambda>q. Inl timeout_error)"
  "get_completion env_failing_late = (\<lambda>sp up. Inl timeout_error)"
  "web_search env_failing_late = (\<lambda>q. Inr (Some [final_snippet]))"
  "get_completion env_validation_down web_system_prompt = (\<lambda>up. Inr (Some argentina))"
  "get_completion env_validation_down validation_prompt = (\<lambda>up. Inl timeout_error)"
  "web_search env_validation_down = (\<lambda>q. Inr (Some [final_snippet]))"
  by (simp_all add: env_failing_def env_failing_late_def env_validation_down_def quiet_env_def
      prompts_distinct)

theorem stage_failures_are_contained_witness:
  "check_local_knowledge env_failing world_cup_query [] =
     (Inr None, [GetKnowledgeBase, LoggerError ''Error checking local knowledge: timed out'']) \<and>
   check_url_sources env_failing world_cup_query [] =
     (Inr None, [SearchUrlSources world_cup_query,
        LoggerError ''Error checking URL sources: timed out'']) \<and>
   generate_ai_response env_failing world_cup_query [] =
     (Inr None, [GetCompletion ai_system_prompt world_cup_query,
        LoggerError ''Error generating AI response: timed out'']) \<and>
   perform_web_search env_failing world_cup_query [] =
     (Inr None, [WebSearch (search_query world_cup_query),
        LoggerError ''Error in web search: timed out'']) \<and>
   check_local_knowledge env_failing_late world_cup_query [] =
     (Inr None, [GetKnowledgeBase, FindAnswer world_cup_query,
        LoggerError ''Error checking local knowledge: timed out'']) \<and>
   perform_web_search env_failing_late world_cup_query [] =
     (Inr None, [WebSearch (search_query world_cup_query),
        GetCompletion web_system_prompt
          (synthesis_prompt world_cup_query (web_context [final_snippet])),
        LoggerError ''Error in web search: timed out'']) \<and>
   perform_web_search env_validation_down world_cup_query [] =
     (Inr None, validation_events world_cup_query [final_snippet] argentina @
        [LoggerError ''Error in web search: timed out'']) \<and>
   reaches_validation (env_web ''not json'' (Inl json_decode_error)) world_cup_query
     [final_snippet] argentina (Some ''not json'') \<and>
   py_json_loads (env_web ''not json'' (Inl json_decode_error)) (Some ''not json'') =
     Inl json_decode_error \<and>
   perform_web_search (env_web ''not json'' (Inl json_decode_error)) world_cup_query [] =
     (Inr None, validation_events world_cup_query [final_snippet] argentina) \<and>
   reaches_validation (env_web ''[1]'' (Inr (JArray [JInt 1]))) world_cup_query
     [final_snippet] argentina (Some ''[1]'') \<and>
   py_json_loads (env_web ''[1]'' (Inr (JArray [JInt 1]))) (Some ''[1]'') = Inr (JArray [JInt 1]) \<and>
   py_get (JArray [JInt 1]) ''is_valid'' (JBool False) = Inl (attribute_error ''list'' ''get'') \<and>
   perform_web_search (env_web ''[1]'' (Inr (JArray [JInt 1]))) world_cup_query [] =
     (Inr None, validation_events world_cup_query [final_snippet] argentina)"
proof -
  let ?M = "env_web ''not json'' (Inl json_decode_error)"
  let ?A = "env_web ''[1]'' (Inr (JArray [JInt 1]))"
  have m: "reaches_validation ?M world_cup_query [final_snippet] argentina (Some ''not json'')"
    by (rule env_web_reaches)
  have mp: "py_json_loads ?M (Some ''not json'') = Inl json_decode_error"
    by (simp add: py_json_loads_def env_web_simps)
  have mw: "perform_web_search ?M world_cup_query [] =
      (Inr None, [] @ validation_events world_cup_query [final_snippet] argentina)"
    using stage_failures_are_contained [of ?M world_cup_query "[]"] m mp by blast
  have a: "reaches_validation ?A world_cup_query [final_snippet] argentina (Some ''[1]'')"
    by (rule env_web_reaches)
  have ap: "py_json_loads ?A (Some ''[1]'') = Inr (JArray [JInt 1])"
    by (simp add: py_json_loads_def env_web_simps)
  have ag: "py_get (JArray [JInt 1]) ''is_valid'' (JBool False) = Inl (attribute_error ''list'' ''get'')"
    by (simp add: py_get_def)
  have aw: "perform_web_search ?A world_cup_query [] =
      (Inr None, [] @ validation_events world_cup_query [final_snippet] argentina)"
    using stage_failures_are_contained [of ?A world_cup_query "[]"] a ap ag by blast
  have early: "check_local_knowledge env_failing world_cup_query [] =
       (Inr None, [GetKnowledgeBase, LoggerError ''Error checking local knowledge: timed out'']) \<and>
     check_url_sources env_failing world_cup_query [] =
       (Inr None, [SearchUrlSources world_cup_query,
          LoggerError ''Error checking URL sources: timed out'']) \<and>
     generate_ai_response env_failing world_cup_query [] =
       (Inr None, [GetCompletion ai_system_prompt world_cup_query,
          LoggerError ''Error generating AI response: timed out'']) \<and>
     perform_web_search env_failing world_cup_query [] =
       (Inr None, [WebSearch (search_query world_cup_query),
          LoggerError ''Error in web search: timed out''])"
    using stage_failures_are_contained [of env_failing world_cup_query "[]"]
    by (simp add: env_failing_simps timeout_error_def)
  have late: "check_local_knowledge env_failing_late world_cup_query [] =
       (Inr None, [GetKnowledgeBase, FindAnswer world_cup_query,
          LoggerError ''Error checking local knowledge: timed out'']) \<and>
     perform_web_search env_failing_late world_cup_query [] =
       (Inr None, [WebSearch (search_query world_cup_query),
          GetCompletion web_system_prompt
            (synthesis_prompt world_cup_query (web_context [final_snippet])),
          LoggerError ''Error in web search: timed out''])"
    using stage_failures_are_contained [of env_failing_late world_cup_query "[]"]
    by (simp add: env_failing_simps timeout_error_def)
  have down: "perform_web_search env_validation_down world_cup_query [] =
       (Inr None, validation_events world_cup_query [final_snippet] argentina @
          [LoggerError ''Error in web search: timed out''])"
    using stage_failures_are_contained [of env_validation_down world_cup_query "[]"]
    by (simp add: env_failing_simps timeout_error_def argentina_nonempty)
  show ?thesis
    using m mp mw a ap ag aw early late down by simp
qed

section \<open>Failures at the top level\<close>

lemma world_cup_query_nonempty: "world_cup_query \<noteq> []"
  by (simp add: world_cup_query_def)

lemma ask_relays:
  assumes "expert_selector g = Some sel" and "sports_expert g = Some ex" and "q \<noteq> []"
    and "sel (JString q) (t @ [GetJson]) = (Inr (Some ''sports'', d), ta)"
    and "ex (JString q) ta = (Inr (Some r), tb)" and "r \<noteq> []"
  shows "ask g (question_body q) t = (Inr (Success (Some r) ''sports'', 200), tb)"
  using assms
  by (simp add: ask_def io_defs expert_get_response_def truthy_str_def question_body_def py_get_def
      format_str_def)

text \<open>
  Claim C8 has a top-level failure surface out of \<open>get_response\<close> as an error that the caller
  converts into a fallback message. With a cache that raises on every read, \<open>get_response\<close>
  returns normally, the error message as its value, and \<open>ask\<close> relays that string as the
  answer of a success payload with status 200.
\<close>

theorem cache_failure_counterexample:
  "get_response env_cache_down world_cup_query [] =
     (Inr (Some error_message),
      [CacheGet world_cup_query, LoggerError ''Error in get_response: cache unavailable'']) \<and>
   ask (sports_app env_cache_down) (question_body world_cup_query) [] =
     (Inr (Success (Some error_message) ''sports'', 200),
      [GetJson, CacheGet world_cup_query,
       LoggerError ''Error in get_response: cache unavailable''])"
proof -
  have down: "cache_get env_cache_down world_cup_query = Inl unavailable"
    by (simp add: env_cache_down_def quiet_env_def)
  have run: "get_response env_cache_down world_cup_query u =
     (Inr (Some error_message),
      u @ [CacheGet world_cup_query, LoggerError ''Error in get_response: cache unavailable''])" for u
    by (simp add: get_response_cache_error [OF down] unavailable_def)
  have "ask (sports_app env_cache_down) (question_body world_cup_query) [] =
     (Inr (Success (Some error_message) ''sports'', 200),
      [] @ [GetJson] @ [CacheGet world_cup_query,
       LoggerError ''Error in get_response: cache unavailable''])"
    by (rule ask_relays [where sel = "\<lambda>question. io_return (Some ''sports'', None)"
          and ex = "\<lambda>question. case question of JString s \<Rightarrow> get_response env_cache_down s
                      | _ \<Rightarrow> io_return None"
          and d = None and ta = "[] @ [GetJson]"])
      (simp_all add: sports_app_def io_return_def run world_cup_query_nonempty
        error_message_nonempty)
  with run [of "[]"] show ?thesis by simp
qed

lemma get_response_handler_record:
  "(filter is_get_response_error (events_of (get_response env q)) \<noteq> []) = cache_fails env q"
proof (cases "cache_get env q")
  case (Inl e)
  then show ?thesis
    by (simp add: events_of_def [of "get_response env q"] get_response_cache_error cache_fails_def)
next
  case (Inr c)
  show ?thesis
  proof (cases "truthy_str c")
    case True
    have "get_response env q [] = (Inr c, [] @ [CacheGet q])"
      using Inr True by (simp add: get_response_def io_defs)
    with Inr True show ?thesis
      by (simp add: events_of_def cache_fails_def)
  next
    case False
    show ?thesis
      using Inr False
      by (simp add: events_of_def [of "get_response env q"] get_response_miss_compact [OF Inr False]
          store_and_return_def no_top_error_until_answer cache_fails_def split: sum.splits)
  qed
qed

text \<open>
  Claim C8, as the code has it. No error leaves \<open>get_response\<close>: it returns a string for all
  collaborators. A failure at the top level, \<open>cache.get\<close> raising or \<open>cache.set\<close> raising on
  the answer of a stage, reaches the handler of \<open>get_response\<close>, which logs it and returns the
  fixed error message itself. Only such a failure reaches the handler: the run holds the
  handler's record exactly when the cache fails, whatever the stages' collaborators do. The
  caller \<open>ask\<close> relays a non-empty string of the sports expert unchanged, as the answer of a
  success payload.
\<close>

theorem top_level_failure_is_handled:
  "(\<exists>r t'. get_response env q t = (Inr (Some r), t') \<and> r \<noteq> []) \<and>
   (\<forall>e. cache_get env q = Inl e \<longrightarrow>
      get_response env q t =
        (Inr (Some error_message),
         t @ [CacheGet q, LoggerError (''Error in get_response: '' @ exn_str e)])) \<and>
   (\<forall>c e. cache_get env q = Inr c \<longrightarrow> \<not> truthy_str c \<longrightarrow>
      truthy_str (first_answer env q) \<longrightarrow> cache_set env q (first_answer env q) = Inl e \<longrightarrow>
      get_response env q t =
        (Inr (Some error_message),
         t @ CacheGet q # events_until_answer env q @
           [CacheSet q (first_answer env q),
            LoggerError (''Error in get_response: '' @ exn_str e)])) \<and>
   (filter is_get_response_error (events_of (get_response env q)) \<noteq> []) = cache_fails env q \<and>
   (\<forall>sel ex d ta r tb. expert_selector g = Some sel \<longrightarrow> sports_expert g = Some ex \<longrightarrow> q \<noteq> [] \<longrightarrow>
      sel (JString q) (t @ [GetJson]) = (Inr (Some ''sports'', d), ta) \<longrightarrow>
      ex (JString q) ta = (Inr (Some r), tb) \<longrightarrow> r \<noteq> [] \<longrightarrow>
      ask g (question_body q) t = (Inr (Success (Some r) ''sports'', 200), tb))"
  apply (intro conjI allI impI)
  subgoal by (rule get_response_returns)
  subgoal by (rule get_response_cache_error)
  subgoal by (rule get_response_set_error)
  subgoal by (rule get_response_handler_record)
  subgoal by (rule ask_relays)
  done

theorem top_level_failure_is_handled_witness:
  "cache_get env_cache_down world_cup_query = Inl unavailable \<and>
   cache_fails env_cache_down world_cup_query \<and>
   get_response env_cache_down world_cup_query [] =
     (Inr (Some error_message),
      [CacheGet world_cup_query, LoggerError ''Error in get_response: cache unavailable'']) \<and>
   cache_get env_set_fails world_cup_query = Inr None \<and> \<not> truthy_str None \<and>
   truthy_str (first_answer env_set_fails world_cup_query) \<and>
   cache_set env_set_fails world_cup_query (first_answer env_set_fails world_cup_query) =
     Inl unavailable \<and>
   cache_fails env_set_fails world_cup_query \<and>
   get_response env_set_fails world_cup_query [] =
     (Inr (Some error_message),
      [CacheGet world_cup_query, GetKnowledgeBase, FindAnswer world_cup_query,
       SearchUrlSources world_cup_query, GetCompletion ai_system_prompt world_cup_query,
       CacheSet world_cup_query (Some argentina),
       LoggerError ''Error in get_response: cache unavailable'']) \<and>
   \<not> cache_fails env_failing world_cup_query \<and>
   filter is_get_response_error (events_of (get_response env_failing world_cup_query)) = [] \<and>
   filter is_logger_error (events_of (get_response env_failing world_cup_query)) =
     [LoggerError ''Error checking local knowledge: timed out'',
      LoggerError ''Error checking URL sources: timed out'',
      LoggerError ''Error generating AI response: timed out'',
      LoggerError ''Error in web search: timed out''] \<and>
   ask (sports_app env_cache_down) (question_body world_cup_query) [] =
     (Inr (Success (Some error_message) ''sports'', 200),
      [GetJson, CacheGet world_cup_query,
       LoggerError ''Error in get_response: cache unavailable''])"
proof -
  have down: "cache_get env_cache_down world_cup_query = Inl unavailable"
    by (simp add: env_cache_down_def quiet_env_def)
  have down_fails: "cache_fails env_cache_down world_cup_query"
    by (simp add: cache_fails_def down)
  have run: "get_response env_cache_down world_cup_query u =
     (Inr (Some error_message),
      u @ [CacheGet world_cup_query, LoggerError ''Error in get_response: cache unavailable''])" for u
    using top_level_failure_is_handled [of env_cache_down world_cup_query u] down
    by (simp add: unavailable_def)
  have set_hyps: "cache_get env_set_fails world_cup_query = Inr None" "\<not> truthy_str None"
    "truthy_str (first_answer env_set_fails world_cup_query)"
    "cache_set env_set_fails world_cup_query (first_answer env_set_fails world_cup_query) =
       Inl unavailable"
    by (simp_all add: env_set_fails_simps env_set_fails_first truthy_str_def argentina_def)
  have set_fails: "cache_fails env_set_fails world_cup_query"
    using set_hyps by (simp add: cache_fails_def)
  have set_run: "get_response env_set_fails world_cup_query [] =
     (Inr (Some error_message),
      [CacheGet world_cup_query, GetKnowledgeBase, FindAnswer world_cup_query,
       SearchUrlSources world_cup_query, GetCompletion ai_system_prompt world_cup_query,
       CacheSet world_cup_query (Some argentina),
       LoggerError ''Error in get_response: cache unavailable''])"
    using top_level_failure_is_handled [of env_set_fails world_cup_query "[]", THEN conjunct2,
        THEN conjunct2, THEN conjunct1, rule_format, OF set_hyps]
    by (simp add: env_set_fails_first unavailable_def)
  have cache: "cache_get env_failing world_cup_query = Inr None"
    by (simp add: env_failing_def quiet_env_def)
  have stages: "answer_of (check_local_knowledge env_failing q) = None"
    "answer_of (check_url_sources env_failing q) = None"
    "answer_of (generate_ai_response env_failing q) = None"
    "answer_of (perform_web_search env_failing q) = None"
    "events_of (check_local_knowledge env_failing q) =
       [GetKnowledgeBase, LoggerError ''Error checking local knowledge: timed out'']"
    "events_of (check_url_sources env_failing q) =
       [SearchUrlSources q, LoggerError ''Error checking URL sources: timed out'']"
    "events_of (generate_ai_response env_failing q) =
       [GetCompletion ai_system_prompt q, LoggerError ''Error generating AI response: timed out'']"
    "events_of (perform_web_search env_failing q) =
       [WebSearch (search_query q), LoggerError ''Error in web search: timed out'']" for q
    by (simp_all add: answer_of_def events_of_def helper_cases env_failing_simps
        perform_web_search_search_error [where e = timeout_error] timeout_error_def)
  have sound: "\<not> cache_fails env_failing world_cup_query"
    by (simp add: cache_fails_def cache first_answer_def stages truthy_str_def)
  have quiet: "filter is_get_response_error (events_of (get_response env_failing world_cup_query)) = []"
    using top_level_failure_is_handled [of env_failing world_cup_query] sound by blast
  have logs: "filter is_logger_error (events_of (get_response env_failing world_cup_query)) =
     [LoggerError ''Error checking local knowledge: timed out'',
      LoggerError ''Error checking URL sources: timed out'',
      LoggerError ''Error generating AI response: timed out'',
      LoggerError ''Error in web search: timed out'']"
    by (simp add: events_of_def [of "get_response env_failing world_cup_query"]
        get_response_miss [OF cache] truthy_str_def stages)
  have relay: "ask (sports_app env_cache_down) (question_body world_cup_query) [] =
     (Inr (Success (Some error_message) ''sports'', 200),
      [] @ [GetJson] @ [CacheGet world_cup_query,
       LoggerError ''Error in get_response: cache unavailable''])"
    by (rule top_level_failure_is_handled [of env_cache_down world_cup_query "[]"
          "sports_app env_cache_down", THEN conjunct2, THEN conjunct2, THEN conjunct2,
          THEN conjunct2, rule_format,
          where sel = "\<lambda>question. io_return (Some ''sports'', None)"
          and ex = "\<lambda>question. case question of JString s \<Rightarrow> get_response env_cache_down s
                      | _ \<Rightarrow> io_return None"
          and d = None and ta = "[] @ [GetJson]"])
      (simp_all add: sports_app_def io_return_def run world_cup_query_nonempty
        error_message_nonempty)
  show ?thesis
    using down down_fails run [of "[]"] set_hyps set_fails set_run sound quiet logs relay by simp
qed

section \<open>The replies of \<open>ask\<close>\<close>

lemma io_bindE:
  assumes "io_bind m f t = (Inr x, t')"
  obtains y u where "m t = (Inr y, u)" and "f y u = (Inr x, t')"
  using assms by (auto simp add: io_bind_def split: prod.splits sum.splits)

lemma try_except_returns:
  assumes body: "\<And>x t'. m t = (Inr x, t') \<Longrightarrow> P x"
    and handler: "\<And>e u. \<exists>x t'. h e u = (Inr x, t') \<and> P x"
  shows "\<exists>x t'. try_except m h t = (Inr x, t') \<and> P x"
proof (cases "m t")
  case (Pair r u)
  show ?thesis
  proof (cases r)
    case (Inl e)
    with Pair handler [of e u] show ?thesis
      by (simp add: try_except_def)
  next
    case (Inr x)
    with Pair body [of x u] show ?thesis
      by (simp add: try_except_def)
  qed
qed

text \<open>
  Claim C9. For every request, so for every non-empty question, \<open>ask\<close> returns a reply and
  raises nothing; the reply is either a success payload whose answer is a non-empty string,
  never null and never empty, or an error payload whose code is one of the four fixed codes.
\<close>

theorem ask_never_empty_success:
  "\<exists>reply t'. ask g request_json t = (Inr reply, t') \<and>
     (case fst reply of
        Success a et \<Rightarrow> (case a of None \<Rightarrow> False | Some s \<Rightarrow> s \<noteq> [])
      | Failure err c \<Rightarrow>
          c = ''EXPERT_SYSTEM_ERROR'' \<or> c = ''MISSING_QUESTION'' \<or> c = ''NO_RESPONSE'' \<or>
          c = ''INTERNAL_ERROR'')"
  unfolding ask_def
proof (rule try_except_returns, goal_cases)
  case (1 reply t')
  show ?case
  proof (cases "expert_selector g")
    case None
    with 1 show ?thesis
      by (auto simp add: io_return_def)
  next
    case (Some select_expert)
    with 1 show ?thesis
      by (auto simp add: io_return_def truthy_str_def elim!: io_bindE
          split: if_splits prod.splits option.splits)
  qed
next
  case (2 e u)
  show ?case
    by (simp add: io_bind_def print_def io_return_def)
qed

end
